theory Spec2Isabelle
  imports Complex_Main
begin

section \<open>Data model of the configuration store (ConfigurationSingleton.hpp)\<close>

text \<open>
  A C++ float is represented by the real number it denotes. The factory never computes
  with floats, it only copies them from a configuration record into a device and writes
  four float literals. An Eigen 3-vector is a triple, a 3x3 matrix a triple of rows.
\<close>

type_synonym Vector3f = "real \<times> real \<times> real"

text \<open>
  The value of a float literal is the single-precision (binary32) number nearest to the
  decimal number written, a tie going to the even significand. The literals of the factory
  are whole numbers, so the rounding is defined on the integers: a non-negative integer of
  more than 24 binary digits loses the digits after the 24th. The literals are far below
  the magnitude at which binary32 overflows, which is not modelled.
\<close>

function bit_length :: "int \<Rightarrow> nat" where
  "bit_length n = (if n \<le> 0 then 0 else Suc (bit_length (n div 2)))"
  by pat_completeness auto
termination
  by (relation "measure nat") auto

declare bit_length.simps [simp del]

definition binary32_of_int :: "int \<Rightarrow> int" where
  "binary32_of_int n =
     (let e = bit_length n - 24; q = n div 2 ^ e; r = n mod 2 ^ e
      in if 2 ^ e < 2 * r \<or> (2 * r = 2 ^ e \<and> odd q) then (q + 1) * 2 ^ e else q * 2 ^ e)"

definition float_literal :: "int \<Rightarrow> real" where
  "float_literal n = real_of_int (binary32_of_int n)"

type_synonym Matrix3f = "Vector3f \<times> Vector3f \<times> Vector3f"

text \<open>
  A shared pointer is either null (\<open>None\<close>) or owns an object (\<open>Some\<close>). The configuration
  records are never written after they are stored, so sharing is not observable and the
  pointer is modelled by the value it points to.
\<close>

type_synonym 'a shared_ptr = "'a option"

text \<open>
  Modelled from the spec: CommonStructs.hpp, which declares the enumerations SensorType and
  ActuatorType, is not among the sources. The enumerators the factory names are listed; any
  other value the enumeration can hold (the spec's data model leaves both sets of kinds
  open) is \<open>SensorType_other\<close>, resp. \<open>ActuatorType_other\<close>, with its underlying number.
\<close>

datatype SensorType = SensorType_Accelerometer | SensorType_Gyroscope | SensorType_other nat

datatype ActuatorType = ActuatorType_ReactionWheel | ActuatorType_other nat

text \<open>
  SensorConfig and its two derived structs GyroConfig and AccelerometerConfig, which add no
  field: the constructor of a derived struct only fixes the tag. The constructors read the
  polling time and the position from a YAML node; here they take the two values read.
\<close>

record SensorConfig =
  pollingTime :: int
  type :: SensorType
  position :: Vector3f

definition GyroConfig :: "int \<Rightarrow> Vector3f \<Rightarrow> SensorConfig" where
  "GyroConfig p pos = \<lparr>pollingTime = p, type = SensorType_Gyroscope, position = pos\<rparr>"

definition AccelerometerConfig :: "int \<Rightarrow> Vector3f \<Rightarrow> SensorConfig" where
  "AccelerometerConfig p pos =
     \<lparr>pollingTime = p, type = SensorType_Accelerometer, position = pos\<rparr>"

text \<open>
  ActuatorConfig is the base struct, with a public constructor taking any tag;
  ReactionWheelConfig derives from it and adds the fields of a reaction wheel (its
  constructor is declared only). The field names that repeat those of another struct are
  written qualified below.
\<close>

record ActuatorConfig =
  type :: ActuatorType

record ReactionWheelConfig = ActuatorConfig +
  momentOfInertia :: real
  maxAngVel :: real
  maxAngAccel :: real
  minAngVel :: real
  minAngAccel :: real
  pollingTime :: real
  position :: Vector3f
  axisOfRotation :: Vector3f
  velocity :: real
  acceleration :: real

text \<open>
  What a pointer to the base struct ActuatorConfig can point to: an object whose dynamic
  type is the base struct itself, or a ReactionWheelConfig. Both carry the tag.
\<close>

datatype ActuatorConfig_object =
  ActuatorConfig_dynamic ActuatorConfig
| ReactionWheelConfig_dynamic ReactionWheelConfig

fun actuator_type :: "ActuatorConfig_object \<Rightarrow> ActuatorType" where
  "actuator_type (ActuatorConfig_dynamic a) = ActuatorConfig.type a"
| "actuator_type (ReactionWheelConfig_dynamic r) = ActuatorConfig.type r"

text \<open>
  The dynamic cast of the base pointer to a pointer to ReactionWheelConfig: null when the
  object is not a ReactionWheelConfig.
\<close>

fun dynamic_cast_ReactionWheelConfig ::
  "ActuatorConfig_object \<Rightarrow> ReactionWheelConfig shared_ptr" where
  "dynamic_cast_ReactionWheelConfig (ActuatorConfig_dynamic a) = None"
| "dynamic_cast_ReactionWheelConfig (ReactionWheelConfig_dynamic r) = Some r"

text \<open>
  The singleton Configuration: the global state the factory reads. The two unordered maps
  are partial functions from names to shared pointers, so that a name can be absent
  (\<open>None\<close>), present with a null pointer (\<open>Some None\<close>) or present with a record. The YAML
  node kept by the class is left out: no accessor returns it.
\<close>

record Configuration =
  sensorConfigs :: "string \<rightharpoonup> SensorConfig shared_ptr"
  actuatorConfigs :: "string \<rightharpoonup> ActuatorConfig_object shared_ptr"
  satelliteMomentOfInertia :: Matrix3f
  satellitePosition :: Vector3f
  satelliteVelocity :: Vector3f
  timestepInMilliSeconds :: int
  timeoutInMilliseconds :: int
  useVariableTimestep :: bool
  timeStepMax :: real
  timeStepMin :: real
  desiredSatellitePosition :: Vector3f
  allowed_jitter :: real
  required_accuracy :: real
  required_hold_time :: int

text \<open>
  GetSensorConfig and GetActuatorConfig return \<^verbatim>\<open>sensorConfigs[name]\<close> and
  \<^verbatim>\<open>actuatorConfigs[name]\<close>. The subscript operator of an unordered map inserts a
  value-initialised element, here a null pointer, when the key is absent, and returns a
  reference to the mapped value. The functions return the pointer and the store after
  the call.
\<close>

definition GetSensorConfig ::
  "string \<Rightarrow> Configuration \<Rightarrow> SensorConfig shared_ptr \<times> Configuration" where
  "GetSensorConfig name config =
     (case sensorConfigs config name of
        None \<Rightarrow> (None, config\<lparr>sensorConfigs := (sensorConfigs config)(name \<mapsto> None)\<rparr>)
      | Some p \<Rightarrow> (p, config))"

definition GetActuatorConfig ::
  "string \<Rightarrow> Configuration \<Rightarrow> ActuatorConfig_object shared_ptr \<times> Configuration" where
  "GetActuatorConfig name config =
     (case actuatorConfigs config name of
        None \<Rightarrow> (None, config\<lparr>actuatorConfigs := (actuatorConfigs config)(name \<mapsto> None)\<rparr>)
      | Some p \<Rightarrow> (p, config))"

definition GetSensorConfigs :: "Configuration \<Rightarrow> (string \<rightharpoonup> SensorConfig shared_ptr)" where
  "GetSensorConfigs config = sensorConfigs config"

definition GetActuatorConfigs ::
  "Configuration \<Rightarrow> (string \<rightharpoonup> ActuatorConfig_object shared_ptr)" where
  "GetActuatorConfigs config = actuatorConfigs config"

definition sensor_registered :: "Configuration \<Rightarrow> string \<Rightarrow> bool" where
  "sensor_registered config name =
     (case sensorConfigs config name of Some (Some s) \<Rightarrow> True | _ \<Rightarrow> False)"

definition actuator_registered :: "Configuration \<Rightarrow> string \<Rightarrow> bool" where
  "actuator_registered config name =
     (case actuatorConfigs config name of Some (Some a) \<Rightarrow> True | _ \<Rightarrow> False)"

section \<open>Devices (what the factory constructs)\<close>

text \<open>
  Modelled from the spec: sim_interface.hpp and Simulator.hpp, which declare timestamp,
  actuator_state and the device classes, are not among the sources. A timestamp is the
  number it is constructed from; actuator_state has the four fields the factory assigns; a
  device is the constructor call that made it, with the arguments in the order of the call.
\<close>

datatype timestamp = timestamp real

record actuator_state =
  acceleration :: real
  velocity :: real
  position :: real
  time :: timestamp

datatype Sensor =
  Accelerometer timestamp Vector3f
| Gyroscope timestamp Vector3f

datatype Actuator =
  Reaction_wheel timestamp Vector3f actuator_state actuator_state real

fun min_state :: "Actuator \<Rightarrow> actuator_state" where
  "min_state (Reaction_wheel poll pos lo hi inertia) = lo"

fun max_state :: "Actuator \<Rightarrow> actuator_state" where
  "max_state (Reaction_wheel poll pos lo hi inertia) = hi"

section \<open>SensorActuatorFactory (SensorActuatorFactory.cpp)\<close>

text \<open>
  Dereferencing a null pointer is undefined behaviour in C++; the model makes it a value.
\<close>

datatype fault = NullPointerDereference

text \<open>
  GetSensor: the lookup, the null test, and the switch on the tag. The switch has two
  cases and no default, so any other tag leaves the result pointer null. The result is the
  returned pointer and the configuration store after the call.
\<close>

definition GetSensor :: "string \<Rightarrow> Configuration \<Rightarrow> Sensor shared_ptr \<times> Configuration" where
  "GetSensor name config =
     (let (sensor, config') = GetSensorConfig name config in
      case sensor of
        None \<Rightarrow> (None, config')
      | Some s \<Rightarrow>
          (case SensorConfig.type s of
             SensorType_Accelerometer \<Rightarrow>
               (Some (Accelerometer (timestamp (of_int (SensorConfig.pollingTime s)))
                        (SensorConfig.position s)), config')
           | SensorType_Gyroscope \<Rightarrow>
               (Some (Gyroscope (timestamp (of_int (SensorConfig.pollingTime s)))
                        (SensorConfig.position s)), config')
           | SensorType_other k \<Rightarrow> (None, config')))"

text \<open>
  GetActuator: the lookup, the null test, and the switch on the tag with its single case.
  In that case the base pointer is cast down and the result is dereferenced at once. The
  two bounding states \<^verbatim>\<open>min\<close> and \<^verbatim>\<open>max\<close> take their acceleration and velocity from
  the record and their position and time from the float literals
  \<^verbatim>\<open>-100000000000000.0f\<close>, \<^verbatim>\<open>0.0f\<close>, \<^verbatim>\<open>10000000000.0f\<close> and \<^verbatim>\<open>10000000.0f\<close>.
\<close>

definition reaction_wheel_min :: "ReactionWheelConfig \<Rightarrow> actuator_state" where
  "reaction_wheel_min reac =
     \<lparr>acceleration = minAngAccel reac, velocity = minAngVel reac,
      position = - float_literal 100000000000000, time = timestamp (float_literal 0)\<rparr>"

definition reaction_wheel_max :: "ReactionWheelConfig \<Rightarrow> actuator_state" where
  "reaction_wheel_max reac =
     \<lparr>acceleration = maxAngAccel reac, velocity = maxAngVel reac,
      position = float_literal 10000000000, time = timestamp (float_literal 10000000)\<rparr>"

definition GetActuator ::
  "string \<Rightarrow> Configuration \<Rightarrow> fault + (Actuator shared_ptr \<times> Configuration)" where
  "GetActuator name config =
     (let (actu, config') = GetActuatorConfig name config in
      case actu of
        None \<Rightarrow> Inr (None, config')
      | Some a \<Rightarrow>
          (case actuator_type a of
             ActuatorType_ReactionWheel \<Rightarrow>
               (case dynamic_cast_ReactionWheelConfig a of
                  None \<Rightarrow> Inl NullPointerDereference
                | Some reac \<Rightarrow>
                    Inr (Some (Reaction_wheel
                                 (timestamp (ReactionWheelConfig.pollingTime reac))
                                 (ReactionWheelConfig.position reac)
                                 (reaction_wheel_min reac) (reaction_wheel_max reac)
                                 (momentOfInertia reac)), config'))
           | ActuatorType_other k \<Rightarrow> Inr (None, config')))"

text \<open>
  The precondition under which the cast in GetActuator cannot fail: every stored object
  that carries the tag of a reaction wheel is a ReactionWheelConfig.
\<close>

definition reaction_wheel_tags_sound :: "Configuration \<Rightarrow> bool" where
  "reaction_wheel_tags_sound config =
     (\<forall>name a. actuatorConfigs config name = Some (Some a) \<longrightarrow>
        actuator_type a = ActuatorType_ReactionWheel \<longrightarrow>
        dynamic_cast_ReactionWheelConfig a \<noteq> None)"

section \<open>Example configurations\<close>

text \<open>
  The reaction wheel of simulator.yaml, and the store holding the satellite, the devices,
  the timestep and the timeout of that file. The moment 0.16666666666 of the file is the
  float 11184811 / 67108864; the other numbers of the file are floats as written. The
  fields the file does not set are zero here.
\<close>

definition reaction_wheel1 :: ReactionWheelConfig where
  "reaction_wheel1 =
     \<lparr>ActuatorConfig.type = ActuatorType_ReactionWheel,
      momentOfInertia = 1, maxAngVel = 1000, maxAngAccel = 1000,
      minAngVel = 0, minAngAccel = 0, ReactionWheelConfig.pollingTime = 10,
      ReactionWheelConfig.position = (0, 0, 0), axisOfRotation = (0, 0, 1),
      ReactionWheelConfig.velocity = 0, ReactionWheelConfig.acceleration = 1\<rparr>"

definition simulator_yaml :: Configuration where
  "simulator_yaml =
     \<lparr>sensorConfigs =
        [''Gyro1'' \<mapsto> Some (GyroConfig 10 (0, 0, 0)),
         ''Accel1'' \<mapsto> Some (AccelerometerConfig 10 (0, 0, 0))],
      actuatorConfigs =
        [''ReactionWheel1'' \<mapsto> Some (ReactionWheelConfig_dynamic reaction_wheel1)],
      satelliteMomentOfInertia =
        ((11184811 / 67108864, 0, 0), (0, 11184811 / 67108864, 0),
         (0, 0, 11184811 / 67108864)),
      satellitePosition = (0, 0, 0),
      satelliteVelocity = (0, 0, 0),
      timestepInMilliSeconds = 1,
      timeoutInMilliseconds = 10,
      useVariableTimestep = False,
      timeStepMax = 0,
      timeStepMin = 0,
      desiredSatellitePosition = (0, 0, 0),
      allowed_jitter = 0,
      required_accuracy = 0,
      required_hold_time = 0\<rparr>"

text \<open>
  The same store with two more entries whose tags the factory's switches do not name: a
  sensor record and an actuator object of the base struct.
\<close>

definition unrecognized_kinds :: Configuration where
  "unrecognized_kinds =
     simulator_yaml
       \<lparr>sensorConfigs := (sensorConfigs simulator_yaml)
          (''Mag1'' \<mapsto>
             Some \<lparr>SensorConfig.pollingTime = 10, SensorConfig.type = SensorType_other 2,
                   SensorConfig.position = (0, 0, 0)\<rparr>),
        actuatorConfigs := (actuatorConfigs simulator_yaml)
          (''Thruster1'' \<mapsto>
             Some (ActuatorConfig_dynamic \<lparr>ActuatorConfig.type = ActuatorType_other 1\<rparr>))\<rparr>"

text \<open>
  The same store with an object of the base struct that was constructed with the tag of a
  reaction wheel (the base constructor is public and takes any tag).
\<close>

definition mistagged_base_object :: Configuration where
  "mistagged_base_object =
     simulator_yaml
       \<lparr>actuatorConfigs := (actuatorConfigs simulator_yaml)
          (''Wheel2'' \<mapsto>
             Some (ActuatorConfig_dynamic
                     \<lparr>ActuatorConfig.type = ActuatorType_ReactionWheel\<rparr>))\<rparr>"

section \<open>Simulation clock and scheduler\<close>

text \<open>
  The scheduler's code is not among the sources; only the configuration fields it reads
  are (timestepInMilliSeconds, timeoutInMilliseconds, useVariableTimestep, timeStepMax,
  timeStepMin). The definitions of this section follow sections 3 and 4.3 of the
  specification. Times and durations are integer milliseconds, the unit of PollingTime,
  TimeStep and Timeout in the configuration document.
\<close>

text \<open>Modelled from the spec: the clock's mode, Fixed or Adaptive (the scheduler's code is missing).\<close>

datatype ClockMode = Fixed | Adaptive

text \<open>
  Modelled from the spec: ClockState, with the fields of the data model: currentTime, mode,
  stepMax and stepMin (read in adaptive mode only) and timeout (the scheduler's code is
  missing).
\<close>

record ClockState =
  currentTime :: int
  mode :: ClockMode
  stepMax :: int
  stepMin :: int
  timeout :: int

text \<open>
  Modelled from the spec: the four states of the scheduler's state machine (the
  scheduler's code is missing).
\<close>

datatype SchedulerState = Idle | Running | TimedOut | Stopped

text \<open>
  Modelled from the spec: a device as the scheduler sees it: its name, its polling
  interval, the time of its last poll, and its own state (for an actuator its
  ActuatorState; a sensor has none), of a type the scheduler does not inspect (the device
  classes are missing).
\<close>

record 'd Device =
  deviceName :: string
  pollingInterval :: int
  lastPollTime :: int
  deviceState :: 'd

text \<open>
  Modelled from the spec: an emitted event, the time of the poll, the device polled and
  what its sample or integration step returned (the scheduler's code is missing).
\<close>

record 'r Event =
  eventTime :: int
  eventDevice :: string
  eventOutput :: 'r

text \<open>
  Modelled from the spec: the scheduler: the clock it owns, the configured constant
  timestep of fixed mode, the time the run started, the state of the state machine, the
  devices and the stream of events emitted so far (the scheduler's code is missing).
\<close>

record ('d, 'r) Scheduler =
  clock :: ClockState
  timeStep :: int
  runStartTime :: int
  phase :: SchedulerState
  devices :: "'d Device list"
  events :: "'r Event list"

text \<open>
  Modelled from the spec: a device's next poll deadline, lastPollTime + pollingInterval
  (the scheduler's code is missing).
\<close>

definition deadline :: "'d Device \<Rightarrow> int" where
  "deadline d = lastPollTime d + pollingInterval d"

text \<open>
  Modelled from the spec: the minimum over all devices of the next poll deadline; there is
  none when there is no device (the scheduler's code is missing).
\<close>

fun nearest_deadline :: "'d Device list \<Rightarrow> int option" where
  "nearest_deadline [] = None"
| "nearest_deadline (d # ds) =
     (case nearest_deadline ds of
        None \<Rightarrow> Some (deadline d)
      | Some m \<Rightarrow> Some (min (deadline d) m))"

text \<open>
  Modelled from the spec: the step size. In fixed mode it is the configured constant
  timestep. In adaptive mode it is chosen from how soon the nearest device deadline falls,
  never below stepMin and never above stepMax; with no device it is stepMax (the
  scheduler's code is missing).
\<close>

definition stepSize :: "('d, 'r) Scheduler \<Rightarrow> int" where
  "stepSize s =
     (case mode (clock s) of
        Fixed \<Rightarrow> timeStep s
      | Adaptive \<Rightarrow>
          (case nearest_deadline (devices s) of
             None \<Rightarrow> stepMax (clock s)
           | Some dl \<Rightarrow>
               min (stepMax (clock s)) (max (stepMin (clock s)) (dl - currentTime (clock s)))))"

text \<open>
  Modelled from the spec: the next event time, the minimum of currentTime + stepSize and
  of the devices' next poll deadlines (the scheduler's code is missing).
\<close>

definition next_event_time :: "('d, 'r) Scheduler \<Rightarrow> int" where
  "next_event_time s =
     (case nearest_deadline (devices s) of
        None \<Rightarrow> currentTime (clock s) + stepSize s
      | Some dl \<Rightarrow> min (currentTime (clock s) + stepSize s) dl)"

text \<open>
  Modelled from the spec: polling at the new time: every device whose deadline was reached
  is sampled or integrated, its output is recorded as an event, and the poll becomes its
  last poll. The sample or integration step of the device classes is the parameter
  \<open>poll\<close>: from the time and the device's state it gives the new state and the output
  (the scheduler's code and the device classes are missing).
\<close>

fun poll_devices ::
  "(int \<Rightarrow> 'd \<Rightarrow> 'd \<times> 'r) \<Rightarrow> int \<Rightarrow> 'd Device list \<Rightarrow> 'd Device list \<times> 'r Event list" where
  "poll_devices poll now [] = ([], [])"
| "poll_devices poll now (d # ds) =
     (let (ds', evs) = poll_devices poll now ds in
      if deadline d \<le> now
      then (let (st, out) = poll now (deviceState d) in
            (d\<lparr>lastPollTime := now, deviceState := st\<rparr> # ds',
             \<lparr>eventTime = now, eventDevice = deviceName d, eventOutput = out\<rparr> # evs))
      else (d # ds', evs))"

text \<open>
  Modelled from the spec: one advancing tick: currentTime moves to the next event time and
  the devices due then are polled (the scheduler's code is missing).
\<close>

definition advance ::
  "(int \<Rightarrow> 'd \<Rightarrow> 'd \<times> 'r) \<Rightarrow> ('d, 'r) Scheduler \<Rightarrow> ('d, 'r) Scheduler" where
  "advance poll s =
     (let now = next_event_time s;
          (ds, evs) = poll_devices poll now (devices s)
      in s\<lparr>clock := (clock s)\<lparr>currentTime := now\<rparr>, devices := ds, events := events s @ evs\<rparr>)"

text \<open>
  Modelled from the spec: the condition of the transition to TimedOut,
  currentTime - runStartTime \<open>\<ge>\<close> timeout (the scheduler's code is missing).
\<close>

definition timed_out :: "('d, 'r) Scheduler \<Rightarrow> bool" where
  "timed_out s = (timeout (clock s) \<le> currentTime (clock s) - runStartTime s)"

text \<open>
  Modelled from the spec: a tick of the state machine. Running is the only state in which
  time advances; a running scheduler whose timeout has elapsed goes to TimedOut instead of
  advancing; in every other state a tick changes nothing (the scheduler's code is missing).
\<close>

definition tick ::
  "(int \<Rightarrow> 'd \<Rightarrow> 'd \<times> 'r) \<Rightarrow> ('d, 'r) Scheduler \<Rightarrow> ('d, 'r) Scheduler" where
  "tick poll s =
     (case phase s of
        Running \<Rightarrow> if timed_out s then s\<lparr>phase := TimedOut\<rparr> else advance poll s
      | _ \<Rightarrow> s)"

text \<open>
  Modelled from the spec: the transition from Idle to Running on start; the run starts at
  the current time (the scheduler's code is missing).
\<close>

definition start :: "('d, 'r) Scheduler \<Rightarrow> ('d, 'r) Scheduler" where
  "start s =
     (case phase s of
        Idle \<Rightarrow> s\<lparr>phase := Running, runStartTime := currentTime (clock s)\<rparr>
      | _ \<Rightarrow> s)"

text \<open>
  Modelled from the spec: the transition from Running to Stopped on an external
  cancellation (the scheduler's code is missing).
\<close>

definition stop :: "('d, 'r) Scheduler \<Rightarrow> ('d, 'r) Scheduler" where
  "stop s = (case phase s of Running \<Rightarrow> s\<lparr>phase := Stopped\<rparr> | _ \<Rightarrow> s)"

text \<open>Modelled from the spec: a run of \<open>n\<close> consecutive ticks (the scheduler's code is missing).\<close>

fun run_ticks ::
  "(int \<Rightarrow> 'd \<Rightarrow> 'd \<times> 'r) \<Rightarrow> nat \<Rightarrow> ('d, 'r) Scheduler \<Rightarrow> ('d, 'r) Scheduler" where
  "run_ticks poll 0 s = s"
| "run_ticks poll (Suc n) s = run_ticks poll n (tick poll s)"

subsection \<open>Notions used to state the scheduler's properties\<close>

text \<open>The events a tick emits: those it appends to the stream.\<close>

definition polled :: "(int \<Rightarrow> 'd \<Rightarrow> 'd \<times> 'r) \<Rightarrow> ('d, 'r) Scheduler \<Rightarrow> 'r Event list" where
  "polled poll s = drop (length (events s)) (events (tick poll s))"

text \<open>What polling does to one device.\<close>

definition poll_one :: "(int \<Rightarrow> 'd \<Rightarrow> 'd \<times> 'r) \<Rightarrow> int \<Rightarrow> 'd Device \<Rightarrow> 'd Device" where
  "poll_one poll now d =
     (if deadline d \<le> now
      then d\<lparr>lastPollTime := now, deviceState := fst (poll now (deviceState d))\<rparr> else d)"

text \<open>
  Two events, the first emitted before the second, are apart when, if they are polls of
  the same device, at least the polling interval of that device lies between them.
\<close>

definition apart :: "'d Device list \<Rightarrow> 'r Event \<Rightarrow> 'r Event \<Rightarrow> bool" where
  "apart ds e1 e2 =
     (eventDevice e1 = eventDevice e2 \<longrightarrow>
      (\<forall>d \<in> set ds. deviceName d = eventDevice e2 \<longrightarrow>
         pollingInterval d \<le> eventTime e2 - eventTime e1))"

text \<open>No event of a device is later than the last poll the device remembers.\<close>

definition covered :: "'d Device list \<Rightarrow> 'r Event list \<Rightarrow> bool" where
  "covered ds evs =
     (\<forall>e \<in> set evs. \<forall>d \<in> set ds.
        deviceName d = eventDevice e \<longrightarrow> eventTime e \<le> lastPollTime d)"

text \<open>Devices are told apart by their names, and no polling interval is negative.\<close>

definition well_formed :: "'d Device list \<Rightarrow> bool" where
  "well_formed ds = (distinct (map deviceName ds) \<and> (\<forall>d \<in> set ds. 0 \<le> pollingInterval d))"

subsection \<open>The scenarios of the specification\<close>

text \<open>
  A scheduler that has not started, at time 0 in fixed mode, with the given timestep,
  timeout and devices.
\<close>

definition idle_scheduler :: "int \<Rightarrow> int \<Rightarrow> 'd Device list \<Rightarrow> ('d, 'r) Scheduler" where
  "idle_scheduler step tmo ds =
     \<lparr>clock = \<lparr>currentTime = 0, mode = Fixed, stepMax = 0, stepMin = 0, timeout = tmo\<rparr>,
      timeStep = step, runStartTime = 0, phase = Idle, devices = ds, events = []\<rparr>"

text \<open>The gyroscope of simulator.yaml, PollingTime 10, not yet polled at time 0.\<close>

definition gyro1 :: "'d \<Rightarrow> 'd Device" where
  "gyro1 st =
     \<lparr>deviceName = ''Gyro1'', pollingInterval = 10, lastPollTime = 0, deviceState = st\<rparr>"

text \<open>A sample that reads nothing but the time.\<close>

definition sample_time :: "int \<Rightarrow> unit \<Rightarrow> unit \<times> int" where
  "sample_time t u = (u, t)"

section \<open>The lookups of the configuration store\<close>

lemma GetSensorConfig_absent:
  "sensorConfigs config name = None \<Longrightarrow>
   GetSensorConfig name config =
     (None, config\<lparr>sensorConfigs := (sensorConfigs config)(name \<mapsto> None)\<rparr>)"
  by (simp add: GetSensorConfig_def)

lemma GetSensorConfig_present:
  "sensorConfigs config name = Some p \<Longrightarrow> GetSensorConfig name config = (p, config)"
  by (simp add: GetSensorConfig_def)

lemma GetActuatorConfig_absent:
  "actuatorConfigs config name = None \<Longrightarrow>
   GetActuatorConfig name config =
     (None, config\<lparr>actuatorConfigs := (actuatorConfigs config)(name \<mapsto> None)\<rparr>)"
  by (simp add: GetActuatorConfig_def)

lemma GetActuatorConfig_present:
  "actuatorConfigs config name = Some p \<Longrightarrow> GetActuatorConfig name config = (p, config)"
  by (simp add: GetActuatorConfig_def)

lemma GetSensor_store:
  "snd (GetSensor name config) =
     (if sensorConfigs config name = None
      then config\<lparr>sensorConfigs := (sensorConfigs config)(name \<mapsto> None)\<rparr> else config)"
proof (cases "sensorConfigs config name")
  case None
  then show ?thesis by (simp add: GetSensor_def GetSensorConfig_def)
next
  case (Some p)
  then show ?thesis
    by (simp add: GetSensor_def GetSensorConfig_def split: option.splits SensorType.splits)
qed

lemma GetActuator_store:
  "GetActuator name config = Inr (r, config') \<Longrightarrow>
   config' =
     (if actuatorConfigs config name = None
      then config\<lparr>actuatorConfigs := (actuatorConfigs config)(name \<mapsto> None)\<rparr> else config)"
proof (cases "actuatorConfigs config name")
  case None
  assume "GetActuator name config = Inr (r, config')"
  with None show ?thesis by (simp add: GetActuator_def GetActuatorConfig_def)
next
  case (Some p)
  assume "GetActuator name config = Inr (r, config')"
  with Some show ?thesis
    by (auto simp: GetActuator_def GetActuatorConfig_def split: option.splits ActuatorType.splits)
qed

lemma GetSensor_frame:
  "snd (GetSensor name config) = config \<longleftrightarrow> sensorConfigs config name \<noteq> None"
proof
  assume eq: "snd (GetSensor name config) = config"
  show "sensorConfigs config name \<noteq> None"
  proof
    assume n: "sensorConfigs config name = None"
    then have "snd (GetSensor name config) =
        config\<lparr>sensorConfigs := (sensorConfigs config)(name \<mapsto> None)\<rparr>"
      by (simp add: GetSensor_store)
    with eq have "sensorConfigs
        (config\<lparr>sensorConfigs := (sensorConfigs config)(name \<mapsto> None)\<rparr>) name =
        sensorConfigs config name"
      by simp
    with n show False by simp
  qed
next
  assume "sensorConfigs config name \<noteq> None"
  then show "snd (GetSensor name config) = config" by (auto simp: GetSensor_store)
qed

text \<open>
  Whatever the name, a call of GetSensor leaves every field of the store but the sensor
  map as it was, and in the sensor map it changes at most the entry of the name.
\<close>

lemma GetSensor_changes_only_its_entry:
  "snd (GetSensor name config) =
     config\<lparr>sensorConfigs := sensorConfigs (snd (GetSensor name config))\<rparr> \<and>
   (\<forall>other. other \<noteq> name \<longrightarrow>
      sensorConfigs (snd (GetSensor name config)) other = sensorConfigs config other)"
  by (simp add: GetSensor_store)

section \<open>Absent names\<close>

text \<open>
  Claim C1. For a name under which no sensor record is registered (the name is absent
  from the sensor map, or stored with a null pointer), GetSensor returns the null pointer;
  for a name under which no actuator record is registered, GetActuator returns normally,
  with the null pointer. Neither call ends in a fault.
\<close>

theorem unregistered_name_gives_null:
  "(\<not> sensor_registered config name \<longrightarrow> fst (GetSensor name config) = None) \<and>
   (\<not> actuator_registered config name \<longrightarrow>
      (\<exists>config'. GetActuator name config = Inr (None, config')))"
proof (intro conjI impI)
  assume "\<not> sensor_registered config name"
  then have "sensorConfigs config name = None \<or> sensorConfigs config name = Some None"
    by (auto simp: sensor_registered_def split: option.splits)
  then show "fst (GetSensor name config) = None"
    by (auto simp: GetSensor_def GetSensorConfig_def)
next
  assume "\<not> actuator_registered config name"
  then have "actuatorConfigs config name = None \<or> actuatorConfigs config name = Some None"
    by (auto simp: actuator_registered_def split: option.splits)
  then show "\<exists>config'. GetActuator name config = Inr (None, config')"
    by (auto simp: GetActuator_def GetActuatorConfig_def)
qed

theorem unregistered_name_gives_null_witness:
  "\<not> sensor_registered simulator_yaml ''Gyro2'' \<and>
   fst (GetSensor ''Gyro2'' simulator_yaml) = None \<and>
   \<not> actuator_registered simulator_yaml ''Gyro2'' \<and>
   (\<exists>config'. GetActuator ''Gyro2'' simulator_yaml = Inr (None, config'))"
proof -
  have s: "\<not> sensor_registered simulator_yaml ''Gyro2''"
    by (simp add: sensor_registered_def simulator_yaml_def)
  have a: "\<not> actuator_registered simulator_yaml ''Gyro2''"
    by (simp add: actuator_registered_def simulator_yaml_def)
  from unregistered_name_gives_null [of simulator_yaml "''Gyro2''"] s a
  show ?thesis by blast
qed

text \<open>
  Claim C3. The claim says that a call of the factory mutates no global state, also when
  the name is absent. On the store of simulator.yaml, which has no sensor named Gyro2 and
  no actuator named Wheel9, the lookup made by GetSensor registers Gyro2 with a null
  pointer in the sensor map, and the lookup made by GetActuator registers Wheel9 with a
  null pointer in the actuator map: the store after the call is not the store before it.
\<close>

theorem lookup_of_absent_name_inserts_null:
  "sensorConfigs simulator_yaml ''Gyro2'' = None \<and>
   GetSensor ''Gyro2'' simulator_yaml =
     (None, simulator_yaml\<lparr>sensorConfigs := (sensorConfigs simulator_yaml)(''Gyro2'' \<mapsto> None)\<rparr>) \<and>
   GetSensorConfigs (snd (GetSensor ''Gyro2'' simulator_yaml)) ''Gyro2'' = Some None \<and>
   snd (GetSensor ''Gyro2'' simulator_yaml) \<noteq> simulator_yaml \<and>
   actuatorConfigs simulator_yaml ''Wheel9'' = None \<and>
   GetActuator ''Wheel9'' simulator_yaml =
     Inr (None, simulator_yaml\<lparr>actuatorConfigs := (actuatorConfigs simulator_yaml)(''Wheel9'' \<mapsto> None)\<rparr>) \<and>
   simulator_yaml\<lparr>actuatorConfigs := (actuatorConfigs simulator_yaml)(''Wheel9'' \<mapsto> None)\<rparr>
     \<noteq> simulator_yaml"
proof -
  have s: "sensorConfigs simulator_yaml ''Gyro2'' = None"
    by (simp add: simulator_yaml_def)
  have a: "actuatorConfigs simulator_yaml ''Wheel9'' = None"
    by (simp add: simulator_yaml_def)
  have gs: "GetSensor ''Gyro2'' simulator_yaml =
     (None, simulator_yaml\<lparr>sensorConfigs := (sensorConfigs simulator_yaml)(''Gyro2'' \<mapsto> None)\<rparr>)"
    by (simp add: GetSensor_def GetSensorConfig_absent [OF s])
  have ga: "GetActuator ''Wheel9'' simulator_yaml =
     Inr (None, simulator_yaml\<lparr>actuatorConfigs := (actuatorConfigs simulator_yaml)(''Wheel9'' \<mapsto> None)\<rparr>)"
    by (simp add: GetActuator_def GetActuatorConfig_absent [OF a])
  have ns: "simulator_yaml\<lparr>sensorConfigs := (sensorConfigs simulator_yaml)(''Gyro2'' \<mapsto> None)\<rparr>
      \<noteq> simulator_yaml"
  proof
    assume "simulator_yaml\<lparr>sensorConfigs := (sensorConfigs simulator_yaml)(''Gyro2'' \<mapsto> None)\<rparr>
      = simulator_yaml"
    then have "sensorConfigs (simulator_yaml\<lparr>sensorConfigs := (sensorConfigs simulator_yaml)(''Gyro2'' \<mapsto> None)\<rparr>) ''Gyro2''
      = sensorConfigs simulator_yaml ''Gyro2''" by simp
    with s show False by simp
  qed
  have na: "simulator_yaml\<lparr>actuatorConfigs := (actuatorConfigs simulator_yaml)(''Wheel9'' \<mapsto> None)\<rparr>
      \<noteq> simulator_yaml"
  proof
    assume "simulator_yaml\<lparr>actuatorConfigs := (actuatorConfigs simulator_yaml)(''Wheel9'' \<mapsto> None)\<rparr>
      = simulator_yaml"
    then have "actuatorConfigs (simulator_yaml\<lparr>actuatorConfigs := (actuatorConfigs simulator_yaml)(''Wheel9'' \<mapsto> None)\<rparr>) ''Wheel9''
      = actuatorConfigs simulator_yaml ''Wheel9''" by simp
    with a show False by simp
  qed
  show ?thesis using s a gs ga ns na by (simp add: GetSensorConfigs_def)
qed

section \<open>Tags the switches do not name\<close>

text \<open>
  On the store that registers the sensor Mag1 and the actuator Thruster1 with tags the
  switches do not name, both calls return normally with the null pointer: the outcome the
  claim C4 excludes.
\<close>

theorem unrecognized_tag_counterexample:
  "sensor_registered unrecognized_kinds ''Mag1'' \<and>
   GetSensor ''Mag1'' unrecognized_kinds = (None, unrecognized_kinds) \<and>
   actuator_registered unrecognized_kinds ''Thruster1'' \<and>
   GetActuator ''Thruster1'' unrecognized_kinds = Inr (None, unrecognized_kinds)"
  by (simp add: sensor_registered_def actuator_registered_def unrecognized_kinds_def
      GetSensor_def GetSensorConfig_def GetActuator_def GetActuatorConfig_def)

text \<open>
  Claim C4, as amended. When the record registered under the name carries a tag that the
  factory's switch does not name, the factory returns the null pointer, as it does for an
  absent name, and leaves the store as it was; it signals no fault.
\<close>

theorem unrecognized_tag_gives_null:
  "(sensorConfigs config name = Some (Some s) \<and> SensorConfig.type s = SensorType_other k
      \<longrightarrow> GetSensor name config = (None, config)) \<and>
   (actuatorConfigs config name = Some (Some a) \<and> actuator_type a = ActuatorType_other k
      \<longrightarrow> GetActuator name config = Inr (None, config))"
  by (simp add: GetSensor_def GetSensorConfig_def GetActuator_def GetActuatorConfig_def)

theorem unrecognized_tag_gives_null_witness:
  "sensorConfigs unrecognized_kinds ''Mag1'' =
     Some (Some \<lparr>SensorConfig.pollingTime = 10, SensorConfig.type = SensorType_other 2,
                 SensorConfig.position = (0, 0, 0)\<rparr>) \<and>
   GetSensor ''Mag1'' unrecognized_kinds = (None, unrecognized_kinds) \<and>
   actuatorConfigs unrecognized_kinds ''Thruster1'' =
     Some (Some (ActuatorConfig_dynamic \<lparr>ActuatorConfig.type = ActuatorType_other 1\<rparr>)) \<and>
   GetActuator ''Thruster1'' unrecognized_kinds = Inr (None, unrecognized_kinds)"
proof -
  let ?s = "\<lparr>SensorConfig.pollingTime = 10, SensorConfig.type = SensorType_other 2,
             SensorConfig.position = (0, 0, 0)\<rparr>"
  let ?a = "ActuatorConfig_dynamic \<lparr>ActuatorConfig.type = ActuatorType_other 1\<rparr>"
  have s: "sensorConfigs unrecognized_kinds ''Mag1'' = Some (Some ?s)"
    by (simp add: unrecognized_kinds_def)
  have a: "actuatorConfigs unrecognized_kinds ''Thruster1'' = Some (Some ?a)"
    by (simp add: unrecognized_kinds_def)
  have ts: "SensorConfig.type ?s = SensorType_other 2" by simp
  have ta: "actuator_type ?a = ActuatorType_other 1" by simp
  from unrecognized_tag_gives_null [of unrecognized_kinds "''Mag1''" ?s 2]
       unrecognized_tag_gives_null [of unrecognized_kinds "''Thruster1''" _ 1 ?a] s a ts ta
  show ?thesis by blast
qed

section \<open>Construction of the devices\<close>

text \<open>
  The values of the four float literals of GetActuator. The number 100000000000000 has 47
  binary digits and is not a binary32 number; its neighbours are 11920928 * 2^23 and
  11920929 * 2^23 = 100000000376832, and the second is the nearer. The other three
  literals are binary32 numbers.
\<close>

lemma bit_length_literals:
  "bit_length 100000000000000 = 47 \<and> bit_length 10000000000 = 34 \<and>
   bit_length 10000000 = 24 \<and> bit_length 0 = 0"
  by (simp add: bit_length.simps)

lemma float_literal_min_position: "float_literal 100000000000000 = 100000000376832"
  by (simp add: float_literal_def binary32_of_int_def bit_length_literals)

lemma float_literal_max_position: "float_literal 10000000000 = 10000000000"
  by (simp add: float_literal_def binary32_of_int_def bit_length_literals)

lemma float_literal_max_time: "float_literal 10000000 = 10000000"
  by (simp add: float_literal_def binary32_of_int_def bit_length_literals)

lemma float_literal_min_time: "float_literal 0 = 0"
  by (simp add: float_literal_def binary32_of_int_def bit_length_literals)

lemmas float_literals =
  float_literal_min_position float_literal_max_position
  float_literal_max_time float_literal_min_time

text \<open>
  Claim C5. For a name registered with a record whose tag is Accelerometer or Gyroscope,
  GetSensor constructs the sensor of that kind from the record's polling time and
  position. For a name registered with a ReactionWheelConfig tagged ReactionWheel,
  GetActuator constructs a reaction wheel from the record's polling time, position and
  moment of inertia and from two bounding states: their velocity and acceleration are the
  record's minimal and maximal angular velocity and acceleration, their positions are the
  sentinel values of the float literals -100000000000000.0f and 10000000000.0f, which are
  -100000000376832 and 10000000000, their times are 0 and 10000000. The store is left as
  it was.
\<close>

theorem recognized_spec_constructs_matching_device:
  "(sensorConfigs config name = Some (Some s) \<and>
      SensorConfig.type s = SensorType_Accelerometer \<longrightarrow>
      GetSensor name config =
        (Some (Accelerometer (timestamp (real_of_int (SensorConfig.pollingTime s)))
                 (SensorConfig.position s)), config)) \<and>
   (sensorConfigs config name = Some (Some s) \<and>
      SensorConfig.type s = SensorType_Gyroscope \<longrightarrow>
      GetSensor name config =
        (Some (Gyroscope (timestamp (real_of_int (SensorConfig.pollingTime s)))
                 (SensorConfig.position s)), config)) \<and>
   (actuatorConfigs config name = Some (Some (ReactionWheelConfig_dynamic reac)) \<and>
      ActuatorConfig.type reac = ActuatorType_ReactionWheel \<longrightarrow>
      (\<exists>lo hi.
         GetActuator name config =
           Inr (Some (Reaction_wheel (timestamp (ReactionWheelConfig.pollingTime reac))
                        (ReactionWheelConfig.position reac) lo hi (momentOfInertia reac)),
                config) \<and>
         actuator_state.velocity lo = minAngVel reac \<and>
         actuator_state.velocity hi = maxAngVel reac \<and>
         actuator_state.acceleration lo = minAngAccel reac \<and>
         actuator_state.acceleration hi = maxAngAccel reac \<and>
         actuator_state.position lo = - 100000000376832 \<and>
         actuator_state.position hi = 10000000000 \<and>
         time lo = timestamp 0 \<and>
         time hi = timestamp 10000000))"
  by (simp add: GetSensor_def GetSensorConfig_def GetActuator_def GetActuatorConfig_def
      reaction_wheel_min_def reaction_wheel_max_def float_literals)

theorem recognized_spec_constructs_matching_device_witness:
  "sensorConfigs simulator_yaml ''Accel1'' = Some (Some (AccelerometerConfig 10 (0, 0, 0))) \<and>
   SensorConfig.type (AccelerometerConfig 10 (0, 0, 0)) = SensorType_Accelerometer \<and>
   GetSensor ''Accel1'' simulator_yaml =
     (Some (Accelerometer (timestamp 10) (0, 0, 0)), simulator_yaml) \<and>
   sensorConfigs simulator_yaml ''Gyro1'' = Some (Some (GyroConfig 10 (0, 0, 0))) \<and>
   SensorConfig.type (GyroConfig 10 (0, 0, 0)) = SensorType_Gyroscope \<and>
   GetSensor ''Gyro1'' simulator_yaml =
     (Some (Gyroscope (timestamp 10) (0, 0, 0)), simulator_yaml) \<and>
   actuatorConfigs simulator_yaml ''ReactionWheel1'' =
     Some (Some (ReactionWheelConfig_dynamic reaction_wheel1)) \<and>
   ActuatorConfig.type reaction_wheel1 = ActuatorType_ReactionWheel \<and>
   (\<exists>lo hi.
      GetActuator ''ReactionWheel1'' simulator_yaml =
        Inr (Some (Reaction_wheel (timestamp 10) (0, 0, 0) lo hi 1), simulator_yaml) \<and>
      actuator_state.velocity lo = 0 \<and> actuator_state.velocity hi = 1000 \<and>
      actuator_state.acceleration lo = 0 \<and> actuator_state.acceleration hi = 1000 \<and>
      actuator_state.position lo = - 100000000376832 \<and>
      actuator_state.position hi = 10000000000 \<and>
      time lo = timestamp 0 \<and> time hi = timestamp 10000000)"
proof -
  let ?acc = "AccelerometerConfig 10 (0, 0, 0)"
  let ?gyr = "GyroConfig 10 (0, 0, 0)"
  have a: "sensorConfigs simulator_yaml ''Accel1'' = Some (Some ?acc)"
    by (simp add: simulator_yaml_def)
  have ta: "SensorConfig.type ?acc = SensorType_Accelerometer"
    by (simp add: AccelerometerConfig_def)
  have g: "sensorConfigs simulator_yaml ''Gyro1'' = Some (Some ?gyr)"
    by (simp add: simulator_yaml_def)
  have tg: "SensorConfig.type ?gyr = SensorType_Gyroscope"
    by (simp add: GyroConfig_def)
  have r: "actuatorConfigs simulator_yaml ''ReactionWheel1'' =
      Some (Some (ReactionWheelConfig_dynamic reaction_wheel1))"
    by (simp add: simulator_yaml_def)
  have tr: "ActuatorConfig.type reaction_wheel1 = ActuatorType_ReactionWheel"
    by (simp add: reaction_wheel1_def)
  have fa: "GetSensor ''Accel1'' simulator_yaml =
      (Some (Accelerometer (timestamp 10) (0, 0, 0)), simulator_yaml)"
    using recognized_spec_constructs_matching_device
            [of simulator_yaml "''Accel1''" ?acc] a ta
    by (simp add: AccelerometerConfig_def)
  have fg: "GetSensor ''Gyro1'' simulator_yaml =
      (Some (Gyroscope (timestamp 10) (0, 0, 0)), simulator_yaml)"
    using recognized_spec_constructs_matching_device
            [of simulator_yaml "''Gyro1''" ?gyr] g tg
    by (simp add: GyroConfig_def)
  have fr: "\<exists>lo hi.
      GetActuator ''ReactionWheel1'' simulator_yaml =
        Inr (Some (Reaction_wheel (timestamp 10) (0, 0, 0) lo hi 1), simulator_yaml) \<and>
      actuator_state.velocity lo = 0 \<and> actuator_state.velocity hi = 1000 \<and>
      actuator_state.acceleration lo = 0 \<and> actuator_state.acceleration hi = 1000 \<and>
      actuator_state.position lo = - 100000000376832 \<and>
      actuator_state.position hi = 10000000000 \<and>
      time lo = timestamp 0 \<and> time hi = timestamp 10000000"
    using recognized_spec_constructs_matching_device
            [of simulator_yaml "''ReactionWheel1''" _ reaction_wheel1] r tr
    by (simp add: reaction_wheel1_def)
  from a ta fa g tg fg r tr fr show ?thesis by blast
qed

text \<open>
  The reaction wheel that GetActuator constructs from the store of simulator.yaml has the
  lower position bound -100000000376832, the value of the literal -100000000000000.0f, and
  not the number -100000000000000 that the claim C10 names.
\<close>

theorem position_lower_bound_counterexample:
  "GetActuator ''ReactionWheel1'' simulator_yaml =
     Inr (Some (Reaction_wheel (timestamp 10) (0, 0, 0)
                  (reaction_wheel_min reaction_wheel1) (reaction_wheel_max reaction_wheel1) 1),
          simulator_yaml) \<and>
   actuator_state.position
     (min_state (Reaction_wheel (timestamp 10) (0, 0, 0)
                  (reaction_wheel_min reaction_wheel1) (reaction_wheel_max reaction_wheel1) 1))
     = - 100000000376832 \<and>
   actuator_state.position
     (min_state (Reaction_wheel (timestamp 10) (0, 0, 0)
                  (reaction_wheel_min reaction_wheel1) (reaction_wheel_max reaction_wheel1) 1))
     \<noteq> - 100000000000000"
  by (simp add: GetActuator_def GetActuatorConfig_def simulator_yaml_def reaction_wheel1_def
      reaction_wheel_min_def float_literals)

text \<open>
  Claim C10, as amended. Whatever the store and the name, an actuator that GetActuator
  constructs has the position bounds -100000000376832 and 10000000000, the
  single-precision values of the literals -100000000000000.0f and 10000000000.0f, and the
  time bounds 0 and 10000000: the four values are constants of the factory and do not
  depend on the configuration, so the time horizon of every actuator ends at 10000000.
\<close>

theorem position_and_time_bounds_are_constants:
  "GetActuator name config = Inr (Some a, config') \<Longrightarrow>
   actuator_state.position (min_state a) = - 100000000376832 \<and>
   actuator_state.position (max_state a) = 10000000000 \<and>
   time (min_state a) = timestamp 0 \<and>
   time (max_state a) = timestamp 10000000"
  by (auto simp: GetActuator_def GetActuatorConfig_def reaction_wheel_min_def
      reaction_wheel_max_def float_literals
      split: option.splits ActuatorType.splits prod.splits)

theorem position_and_time_bounds_are_constants_witness:
  "GetActuator ''ReactionWheel1'' simulator_yaml =
     Inr (Some (Reaction_wheel (timestamp 10) (0, 0, 0)
                  (reaction_wheel_min reaction_wheel1) (reaction_wheel_max reaction_wheel1) 1),
          simulator_yaml) \<and>
   actuator_state.position (reaction_wheel_min reaction_wheel1) = - 100000000376832 \<and>
   actuator_state.position (reaction_wheel_max reaction_wheel1) = 10000000000 \<and>
   time (reaction_wheel_min reaction_wheel1) = timestamp 0 \<and>
   time (reaction_wheel_max reaction_wheel1) = timestamp 10000000"
proof -
  let ?rw = "Reaction_wheel (timestamp 10) (0, 0, 0)
               (reaction_wheel_min reaction_wheel1) (reaction_wheel_max reaction_wheel1) 1"
  have h: "GetActuator ''ReactionWheel1'' simulator_yaml = Inr (Some ?rw, simulator_yaml)"
    by (simp add: GetActuator_def GetActuatorConfig_def simulator_yaml_def reaction_wheel1_def)
  from h position_and_time_bounds_are_constants [OF h] show ?thesis by simp
qed

section \<open>The cast in GetActuator\<close>

text \<open>
  GetActuator dereferences the result of the cast without testing it: the call ends in the
  dereference of a null pointer exactly when the object registered under the name carries
  the tag ReactionWheel and is not a ReactionWheelConfig.
\<close>

lemma null_dereference_iff:
  "GetActuator name config = Inl NullPointerDereference \<longleftrightarrow>
   (\<exists>a. actuatorConfigs config name = Some (Some a) \<and>
        actuator_type a = ActuatorType_ReactionWheel \<and>
        dynamic_cast_ReactionWheelConfig a = None)"
  by (auto simp: GetActuator_def GetActuatorConfig_def
      split: option.splits ActuatorType.splits)

lemma null_dereference_reachable:
  "GetActuator ''Wheel2'' mistagged_base_object = Inl NullPointerDereference"
  by (simp add: GetActuator_def GetActuatorConfig_def mistagged_base_object_def)

text \<open>
  Claim C9. In GetActuator the pointer that the cast to ReactionWheelConfig returns is
  dereferenced without a null test. If every object stored with the tag ReactionWheel is a
  ReactionWheelConfig, then for no name does the call dereference a null pointer.
\<close>

theorem downcast_dereference_safe:
  "reaction_wheel_tags_sound config \<Longrightarrow>
   GetActuator name config \<noteq> Inl NullPointerDereference"
  unfolding null_dereference_iff reaction_wheel_tags_sound_def by blast

theorem downcast_dereference_safe_witness:
  "reaction_wheel_tags_sound simulator_yaml \<and>
   GetActuator ''ReactionWheel1'' simulator_yaml \<noteq> Inl NullPointerDereference"
proof -
  have h: "reaction_wheel_tags_sound simulator_yaml"
    by (simp add: reaction_wheel_tags_sound_def simulator_yaml_def)
  from h downcast_dereference_safe [OF h, of "''ReactionWheel1''"]
  show ?thesis by simp
qed

section \<open>The scheduler: polling\<close>

lemma poll_devices_fst:
  "fst (poll_devices poll now ds) = map (poll_one poll now) ds"
  by (induction ds) (simp_all add: split_beta poll_one_def)

lemma poll_devices_snd:
  "snd (poll_devices poll now ds) =
     map (\<lambda>d. \<lparr>eventTime = now, eventDevice = deviceName d,
                eventOutput = snd (poll now (deviceState d))\<rparr>)
       (filter (\<lambda>d. deadline d \<le> now) ds)"
  by (induction ds) (simp_all add: split_beta)

lemma poll_one_name [simp]: "deviceName (poll_one poll now d) = deviceName d"
  by (simp add: poll_one_def)

lemma poll_one_interval [simp]: "pollingInterval (poll_one poll now d) = pollingInterval d"
  by (simp add: poll_one_def)

lemma events_tick: "events (tick poll s) = events s @ polled poll s"
  by (simp add: polled_def tick_def advance_def Let_def split_beta split: SchedulerState.splits)

lemma polled_running:
  "phase s = Running \<Longrightarrow> \<not> timed_out s \<Longrightarrow>
   polled poll s = snd (poll_devices poll (next_event_time s) (devices s))"
  by (simp add: polled_def tick_def advance_def Let_def split_beta)

lemma polled_not_advancing:
  "phase s \<noteq> Running \<or> timed_out s \<Longrightarrow> polled poll s = []"
  by (auto simp: polled_def tick_def split: SchedulerState.splits)

lemma currentTime_advance:
  "phase s = Running \<Longrightarrow> \<not> timed_out s \<Longrightarrow>
   currentTime (clock (tick poll s)) = next_event_time s"
  by (simp add: tick_def advance_def Let_def split_beta)

lemma polled_when_due:
  assumes "e \<in> set (polled poll s)"
  shows "\<exists>d \<in> set (devices s). deviceName d = eventDevice e \<and>
           eventTime e = currentTime (clock (tick poll s)) \<and>
           pollingInterval d \<le> currentTime (clock (tick poll s)) - lastPollTime d"
proof (cases "phase s = Running \<and> \<not> timed_out s")
  case True
  with assms show ?thesis
    by (auto simp: polled_running currentTime_advance poll_devices_snd deadline_def)
next
  case False
  then have "polled poll s = []" by (intro polled_not_advancing) blast
  with assms show ?thesis by simp
qed


lemma devices_tick_running:
  "phase s = Running \<Longrightarrow> \<not> timed_out s \<Longrightarrow>
   devices (tick poll s) = map (poll_one poll (next_event_time s)) (devices s)"
  by (simp add: tick_def advance_def Let_def split_beta poll_devices_fst)

lemma devices_tick_not_advancing:
  "phase s \<noteq> Running \<or> timed_out s \<Longrightarrow> devices (tick poll s) = devices s"
  by (auto simp: tick_def split: SchedulerState.splits)

lemma apart_poll_one: "apart (map (poll_one poll now) ds) = apart ds"
  by (simp add: apart_def fun_eq_iff)

lemma well_formed_poll_one: "well_formed (map (poll_one poll now) ds) = well_formed ds"
  by (simp add: well_formed_def comp_def)

lemma lastPollTime_poll_one:
  "0 \<le> pollingInterval d \<Longrightarrow> lastPollTime d \<le> lastPollTime (poll_one poll now d)"
  by (simp add: poll_one_def deadline_def)

lemma covered_step:
  assumes wf: "well_formed ds" and cov: "covered ds evs"
  shows "covered (map (poll_one poll now) ds) (evs @ snd (poll_devices poll now ds))"
  unfolding covered_def
proof (intro ballI impI)
  fix e d'
  assume e: "e \<in> set (evs @ snd (poll_devices poll now ds))"
    and d': "d' \<in> set (map (poll_one poll now) ds)"
    and nm: "deviceName d' = eventDevice e"
  from d' obtain d where d: "d \<in> set ds" and d'_eq: "d' = poll_one poll now d" by auto
  from wf d have P: "0 \<le> pollingInterval d" by (simp add: well_formed_def)
  from e consider (old) "e \<in> set evs" | (new) "e \<in> set (snd (poll_devices poll now ds))"
    by auto
  then show "eventTime e \<le> lastPollTime d'"
  proof cases
    case old
    with cov d nm d'_eq have "eventTime e \<le> lastPollTime d" by (simp add: covered_def)
    also have "\<dots> \<le> lastPollTime d'" unfolding d'_eq by (rule lastPollTime_poll_one [OF P])
    finally show ?thesis .
  next
    case new
    then obtain d0 where d0: "d0 \<in> set ds" and due: "deadline d0 \<le> now"
      and e_eq: "eventTime e = now" "eventDevice e = deviceName d0"
      by (auto simp: poll_devices_snd)
    from nm d'_eq e_eq have "deviceName d = deviceName d0" by simp
    with wf d d0 have "d = d0" by (auto simp: well_formed_def distinct_map inj_on_def)
    with due d'_eq have "lastPollTime d' = now" by (simp add: poll_one_def)
    with e_eq show ?thesis by simp
  qed
qed

lemma spaced_step:
  assumes wf: "well_formed ds" and cov: "covered ds evs"
    and sp: "sorted_wrt (apart ds) evs"
  shows "sorted_wrt (apart ds) (evs @ snd (poll_devices poll now ds))"
  unfolding sorted_wrt_append
proof (intro conjI ballI)
  show "sorted_wrt (apart ds) evs" by (rule sp)
next
  from wf have "distinct (map deviceName (filter (\<lambda>d. deadline d \<le> now) ds))"
    by (simp add: well_formed_def distinct_map_filter)
  then have "distinct (map eventDevice (snd (poll_devices poll now ds)))"
    by (simp add: poll_devices_snd comp_def)
  then have "sorted_wrt (\<lambda>x y. eventDevice x \<noteq> eventDevice y) (snd (poll_devices poll now ds))"
    by (simp add: distinct_map sorted_wrt_map[symmetric] distinct_conv_nth sorted_wrt_iff_nth_less inj_on_def)
  then show "sorted_wrt (apart ds) (snd (poll_devices poll now ds))"
    by (rule sorted_wrt_mono_rel [rotated]) (simp add: apart_def)
next
  fix e1 e2
  assume e1: "e1 \<in> set evs" and e2: "e2 \<in> set (snd (poll_devices poll now ds))"
  from e2 obtain d0 where d0: "d0 \<in> set ds" and due: "deadline d0 \<le> now"
    and e_eq: "eventTime e2 = now" "eventDevice e2 = deviceName d0"
    by (auto simp: poll_devices_snd)
  show "apart ds e1 e2"
    unfolding apart_def
  proof (intro impI ballI)
    fix d
    assume same: "eventDevice e1 = eventDevice e2" and d: "d \<in> set ds"
      and nm: "deviceName d = eventDevice e2"
    with e_eq have "deviceName d = deviceName d0" by simp
    with wf d d0 have "d = d0" by (auto simp: well_formed_def distinct_map inj_on_def)
    from cov e1 d nm same have "eventTime e1 \<le> lastPollTime d" by (simp add: covered_def)
    with due \<open>d = d0\<close> e_eq show "pollingInterval d \<le> eventTime e2 - eventTime e1"
      by (simp add: deadline_def)
  qed
qed


lemma run_ticks_add: "run_ticks poll (m + n) s = run_ticks poll n (run_ticks poll m s)"
  by (induction m arbitrary: s) simp_all

lemma apart_tick: "apart (devices (tick poll s)) = apart (devices s)"
  by (cases "phase s = Running \<and> \<not> timed_out s")
     (auto simp: devices_tick_running devices_tick_not_advancing apart_poll_one)

lemma tick_invariant:
  assumes "well_formed (devices s)" "covered (devices s) (events s)"
    "sorted_wrt (apart (devices s)) (events s)"
  shows "well_formed (devices (tick poll s)) \<and>
         covered (devices (tick poll s)) (events (tick poll s)) \<and>
         sorted_wrt (apart (devices (tick poll s))) (events (tick poll s))"
proof (cases "phase s = Running \<and> \<not> timed_out s")
  case True
  then have r: "phase s = Running" "\<not> timed_out s" by simp_all
  show ?thesis
    using assms
    by (simp add: events_tick polled_running [OF r] devices_tick_running [OF r]
        well_formed_poll_one apart_poll_one covered_step spaced_step)
next
  case False
  then have n: "phase s \<noteq> Running \<or> timed_out s" by blast
  show ?thesis
    using assms
    by (simp add: events_tick polled_not_advancing [OF n] devices_tick_not_advancing [OF n])
qed

lemma run_invariant:
  "well_formed (devices s) \<Longrightarrow> covered (devices s) (events s) \<Longrightarrow>
   sorted_wrt (apart (devices s)) (events s) \<Longrightarrow>
   sorted_wrt (apart (devices s)) (events (run_ticks poll n s))"
proof (induction n arbitrary: s)
  case 0
  then show ?case by simp
next
  case (Suc n)
  have inv: "well_formed (devices (tick poll s)) \<and>
         covered (devices (tick poll s)) (events (tick poll s)) \<and>
         sorted_wrt (apart (devices (tick poll s))) (events (tick poll s))"
    by (rule tick_invariant [OF Suc.prems])
  from inv have wf: "well_formed (devices (tick poll s))"
    and cov: "covered (devices (tick poll s)) (events (tick poll s))"
    and sp: "sorted_wrt (apart (devices (tick poll s))) (events (tick poll s))"
    by blast+
  have "sorted_wrt (apart (devices (tick poll s)))
          (events (run_ticks poll n (tick poll s)))"
    by (rule Suc.IH [OF wf cov sp])
  then show ?case by (simp add: apart_tick)
qed

text \<open>
  In a run that starts with no event emitted, two polls of one device are never closer
  than the polling interval of the device.
\<close>

lemma polls_of_one_device_are_spaced:
  assumes "well_formed (devices s)" "events s = []"
    and "i < j" "j < length (events (run_ticks poll n s))"
    and "eventDevice (events (run_ticks poll n s) ! i) = eventDevice (events (run_ticks poll n s) ! j)"
    and "d \<in> set (devices s)" "deviceName d = eventDevice (events (run_ticks poll n s) ! j)"
  shows "pollingInterval d \<le>
           eventTime (events (run_ticks poll n s) ! j) - eventTime (events (run_ticks poll n s) ! i)"
proof -
  have "sorted_wrt (apart (devices s)) (events (run_ticks poll n s))"
    using assms(1,2) by (intro run_invariant) (simp_all add: covered_def)
  with assms(3,4) have "apart (devices s) (events (run_ticks poll n s) ! i) (events (run_ticks poll n s) ! j)"
    by (simp add: sorted_wrt_iff_nth_less)
  with assms(5-7) show ?thesis by (simp add: apart_def)
qed

lemma gyro_polled_every_10ms:
  "events (run_ticks poll 35 (start (idle_scheduler 1 100 [gyro1 st]))) =
     [\<lparr>eventTime = 10, eventDevice = ''Gyro1'', eventOutput = snd (poll 10 st)\<rparr>,
      \<lparr>eventTime = 20, eventDevice = ''Gyro1'',
       eventOutput = snd (poll 20 (fst (poll 10 st)))\<rparr>,
      \<lparr>eventTime = 30, eventDevice = ''Gyro1'',
       eventOutput = snd (poll 30 (fst (poll 20 (fst (poll 10 st)))))\<rparr>]"
  by (simp add: eval_nat_numeral idle_scheduler_def gyro1_def start_def tick_def advance_def
      timed_out_def next_event_time_def stepSize_def deadline_def split_beta)

lemma due_iff: "deadline d \<le> now \<longleftrightarrow> pollingInterval d \<le> now - lastPollTime d"
  by (auto simp: deadline_def)

lemma poll_one_eq:
  "poll_one poll now d =
     (if pollingInterval d \<le> now - lastPollTime d
      then d\<lparr>lastPollTime := now, deviceState := fst (poll now (deviceState d))\<rparr> else d)"
  by (simp add: poll_one_def due_iff)

text \<open>What a tick does to the devices: it polls those that are due and leaves the others as they are.\<close>

lemma devices_tick:
  "devices (tick poll s) =
     map (\<lambda>d. if phase s = Running \<and> \<not> timed_out s \<and>
                  pollingInterval d \<le> currentTime (clock (tick poll s)) - lastPollTime d
               then d\<lparr>lastPollTime := currentTime (clock (tick poll s)),
                      deviceState :=
                        fst (poll (currentTime (clock (tick poll s))) (deviceState d))\<rparr>
               else d)
       (devices s)"
proof (cases "phase s = Running \<and> \<not> timed_out s")
  case True
  then have r: "phase s = Running" "\<not> timed_out s" by simp_all
  show ?thesis
    by (simp add: devices_tick_running [OF r] currentTime_advance [OF r] r poll_one_eq)
next
  case False
  then have n: "phase s \<noteq> Running \<or> timed_out s" by blast
  have "devices (tick poll s) = map (\<lambda>d. d) (devices s)"
    by (simp add: devices_tick_not_advancing [OF n])
  also have "\<dots> = map (\<lambda>d. if phase s = Running \<and> \<not> timed_out s \<and>
                  pollingInterval d \<le> currentTime (clock (tick poll s)) - lastPollTime d
               then d\<lparr>lastPollTime := currentTime (clock (tick poll s)),
                      deviceState :=
                        fst (poll (currentTime (clock (tick poll s))) (deviceState d))\<rparr>
               else d)
       (devices s)"
    using False by (intro map_cong) auto
  finally show ?thesis .
qed

text \<open>What a tick emits: one event for each device that is due, with the output of its poll.\<close>

lemma polled_tick:
  "polled poll s =
     map (\<lambda>d. \<lparr>eventTime = currentTime (clock (tick poll s)), eventDevice = deviceName d,
                eventOutput = snd (poll (currentTime (clock (tick poll s))) (deviceState d))\<rparr>)
       (filter (\<lambda>d. phase s = Running \<and> \<not> timed_out s \<and>
                  pollingInterval d \<le> currentTime (clock (tick poll s)) - lastPollTime d)
          (devices s))"
proof (cases "phase s = Running \<and> \<not> timed_out s")
  case True
  then have r: "phase s = Running" "\<not> timed_out s" by simp_all
  show ?thesis
    by (simp add: polled_running [OF r] currentTime_advance [OF r] r poll_devices_snd due_iff)
next
  case False
  then have n: "phase s \<noteq> Running \<or> timed_out s" by blast
  from False have "filter (\<lambda>d. phase s = Running \<and> \<not> timed_out s \<and>
                  pollingInterval d \<le> currentTime (clock (tick poll s)) - lastPollTime d)
          (devices s) = []"
    by (auto simp: filter_empty_conv)
  then show ?thesis by (simp add: polled_not_advancing [OF n])
qed

lemma device_not_due_unchanged:
  assumes "i < length (devices s)"
    and "currentTime (clock (tick poll s)) - lastPollTime (devices s ! i)
           < pollingInterval (devices s ! i)"
  shows "devices (tick poll s) ! i = devices s ! i"
proof -
  have "devices (tick poll s) ! i =
     (\<lambda>d. if phase s = Running \<and> \<not> timed_out s \<and>
                  pollingInterval d \<le> currentTime (clock (tick poll s)) - lastPollTime d
               then d\<lparr>lastPollTime := currentTime (clock (tick poll s)),
                      deviceState :=
                        fst (poll (currentTime (clock (tick poll s))) (deviceState d))\<rparr>
               else d) (devices s ! i)"
    by (subst devices_tick) (simp add: assms(1))
  with assms(2) show ?thesis by simp
qed

lemma gyro_untouched_for_9_ticks:
  "run_ticks poll 9 (start (idle_scheduler 1 100 [gyro1 st])) =
     \<lparr>clock = \<lparr>currentTime = 9, mode = Fixed, stepMax = 0, stepMin = 0, timeout = 100\<rparr>,
      timeStep = 1, runStartTime = 0, phase = Running, devices = [gyro1 st], events = []\<rparr>"
  by (simp add: eval_nat_numeral idle_scheduler_def gyro1_def start_def tick_def advance_def
      timed_out_def next_event_time_def stepSize_def deadline_def split_beta)

text \<open>
  Claim C6. The events a tick emits are appended to the stream, and each of them is the
  poll of a device of the scheduler at the new current time, at least the polling interval
  of the device after the last poll the device remembers. A tick polls exactly the devices
  that are due: it emits one event for each of them, with the output of the sample or
  integration step, and records the poll and the new state in the device; a device whose
  polling interval has not elapsed is left exactly as it was, state included. In the run
  of 35 ticks of 1 ms with the gyroscope of polling time 10 ms as the only device, the
  gyroscope is sampled at the times 10, 20 and 30 ms and at no other time; after the first
  9 ticks it is untouched and no event has been emitted.
\<close>

theorem device_polled_only_when_due:
  "(\<forall>e \<in> set (polled poll s).
      \<exists>d \<in> set (devices s).
        deviceName d = eventDevice e \<and>
        eventTime e = currentTime (clock (tick poll s)) \<and>
        pollingInterval d \<le> currentTime (clock (tick poll s)) - lastPollTime d) \<and>
   events (tick poll s) = events s @ polled poll s \<and>
   map eventTime (events (run_ticks poll 35 (start (idle_scheduler 1 100 [gyro1 st])))) =
     [10, 20, 30] \<and>
   map eventDevice (events (run_ticks poll 35 (start (idle_scheduler 1 100 [gyro1 st])))) =
     [''Gyro1'', ''Gyro1'', ''Gyro1''] \<and>
   polled poll s =
     map (\<lambda>d. \<lparr>eventTime = currentTime (clock (tick poll s)), eventDevice = deviceName d,
                eventOutput = snd (poll (currentTime (clock (tick poll s))) (deviceState d))\<rparr>)
       (filter (\<lambda>d. phase s = Running \<and> \<not> timed_out s \<and>
                  pollingInterval d \<le> currentTime (clock (tick poll s)) - lastPollTime d)
          (devices s)) \<and>
   devices (tick poll s) =
     map (\<lambda>d. if phase s = Running \<and> \<not> timed_out s \<and>
                  pollingInterval d \<le> currentTime (clock (tick poll s)) - lastPollTime d
               then d\<lparr>lastPollTime := currentTime (clock (tick poll s)),
                      deviceState :=
                        fst (poll (currentTime (clock (tick poll s))) (deviceState d))\<rparr>
               else d)
       (devices s) \<and>
   (\<forall>i < length (devices s).
      currentTime (clock (tick poll s)) - lastPollTime (devices s ! i)
        < pollingInterval (devices s ! i) \<longrightarrow>
      devices (tick poll s) ! i = devices s ! i) \<and>
   devices (run_ticks poll 9 (start (idle_scheduler 1 100 [gyro1 st]))) = [gyro1 st] \<and>
   events (run_ticks poll 9 (start (idle_scheduler 1 100 [gyro1 st]))) = [] \<and>
   events (run_ticks poll 35 (start (idle_scheduler 1 100 [gyro1 st]))) =
     [\<lparr>eventTime = 10, eventDevice = ''Gyro1'', eventOutput = snd (poll 10 st)\<rparr>,
      \<lparr>eventTime = 20, eventDevice = ''Gyro1'',
       eventOutput = snd (poll 20 (fst (poll 10 st)))\<rparr>,
      \<lparr>eventTime = 30, eventDevice = ''Gyro1'',
       eventOutput = snd (poll 30 (fst (poll 20 (fst (poll 10 st)))))\<rparr>]"
proof (intro conjI ballI allI impI)
  fix e
  assume "e \<in> set (polled poll s)"
  then show "\<exists>d \<in> set (devices s).
        deviceName d = eventDevice e \<and>
        eventTime e = currentTime (clock (tick poll s)) \<and>
        pollingInterval d \<le> currentTime (clock (tick poll s)) - lastPollTime d"
    by (rule polled_when_due)
next
  show "events (tick poll s) = events s @ polled poll s" by (rule events_tick)
next
  show "map eventTime (events (run_ticks poll 35 (start (idle_scheduler 1 100 [gyro1 st])))) =
     [10, 20, 30]"
    by (simp add: gyro_polled_every_10ms)
next
  show "map eventDevice (events (run_ticks poll 35 (start (idle_scheduler 1 100 [gyro1 st])))) =
     [''Gyro1'', ''Gyro1'', ''Gyro1'']"
    by (simp add: gyro_polled_every_10ms)
next
  show "polled poll s =
     map (\<lambda>d. \<lparr>eventTime = currentTime (clock (tick poll s)), eventDevice = deviceName d,
                eventOutput = snd (poll (currentTime (clock (tick poll s))) (deviceState d))\<rparr>)
       (filter (\<lambda>d. phase s = Running \<and> \<not> timed_out s \<and>
                  pollingInterval d \<le> currentTime (clock (tick poll s)) - lastPollTime d)
          (devices s))"
    by (rule polled_tick)
next
  show "devices (tick poll s) =
     map (\<lambda>d. if phase s = Running \<and> \<not> timed_out s \<and>
                  pollingInterval d \<le> currentTime (clock (tick poll s)) - lastPollTime d
               then d\<lparr>lastPollTime := currentTime (clock (tick poll s)),
                      deviceState :=
                        fst (poll (currentTime (clock (tick poll s))) (deviceState d))\<rparr>
               else d)
       (devices s)"
    by (rule devices_tick)
next
  fix i
  assume "i < length (devices s)"
    and "currentTime (clock (tick poll s)) - lastPollTime (devices s ! i)
           < pollingInterval (devices s ! i)"
  then show "devices (tick poll s) ! i = devices s ! i"
    by (rule device_not_due_unchanged)
next
  show "devices (run_ticks poll 9 (start (idle_scheduler 1 100 [gyro1 st]))) = [gyro1 st]"
    by (simp add: gyro_untouched_for_9_ticks)
next
  show "events (run_ticks poll 9 (start (idle_scheduler 1 100 [gyro1 st]))) = []"
    by (simp add: gyro_untouched_for_9_ticks)
next
  show "events (run_ticks poll 35 (start (idle_scheduler 1 100 [gyro1 st]))) =
     [\<lparr>eventTime = 10, eventDevice = ''Gyro1'', eventOutput = snd (poll 10 st)\<rparr>,
      \<lparr>eventTime = 20, eventDevice = ''Gyro1'',
       eventOutput = snd (poll 20 (fst (poll 10 st)))\<rparr>,
      \<lparr>eventTime = 30, eventDevice = ''Gyro1'',
       eventOutput = snd (poll 30 (fst (poll 20 (fst (poll 10 st)))))\<rparr>]"
    by (rule gyro_polled_every_10ms)
qed

lemma gyro_after_9_ticks:
  "run_ticks sample_time 9 (start (idle_scheduler 1 100 [gyro1 ()])) =
     \<lparr>clock = \<lparr>currentTime = 9, mode = Fixed, stepMax = 0, stepMin = 0, timeout = 100\<rparr>,
      timeStep = 1, runStartTime = 0, phase = Running, devices = [gyro1 ()], events = []\<rparr>"
  by (rule gyro_untouched_for_9_ticks)

lemma gyro_first_tick:
  "tick sample_time (start (idle_scheduler 1 100 [gyro1 ()])) =
     \<lparr>clock = \<lparr>currentTime = 1, mode = Fixed, stepMax = 0, stepMin = 0, timeout = 100\<rparr>,
      timeStep = 1, runStartTime = 0, phase = Running, devices = [gyro1 ()], events = []\<rparr>"
  by (simp add: idle_scheduler_def gyro1_def start_def tick_def advance_def
      timed_out_def next_event_time_def stepSize_def deadline_def split_beta)

theorem device_polled_only_when_due_witness:
  "\<lparr>eventTime = 10, eventDevice = ''Gyro1'', eventOutput = 10\<rparr>
     \<in> set (polled sample_time (run_ticks sample_time 9 (start (idle_scheduler 1 100 [gyro1 ()])))) \<and>
   (\<exists>d \<in> set (devices (run_ticks sample_time 9 (start (idle_scheduler 1 100 [gyro1 ()])))).
      deviceName d = ''Gyro1'' \<and>
      currentTime (clock (tick sample_time
        (run_ticks sample_time 9 (start (idle_scheduler 1 100 [gyro1 ()]))))) = 10 \<and>
      pollingInterval d \<le> 10 - lastPollTime d) \<and>
   0 < length (devices (start (idle_scheduler 1 100 [gyro1 ()]) :: (unit, int) Scheduler)) \<and>
   currentTime (clock (tick sample_time (start (idle_scheduler 1 100 [gyro1 ()]))))
     - lastPollTime (devices (start (idle_scheduler 1 100 [gyro1 ()]) :: (unit, int) Scheduler) ! 0)
     < pollingInterval
         (devices (start (idle_scheduler 1 100 [gyro1 ()]) :: (unit, int) Scheduler) ! 0) \<and>
   devices (tick sample_time (start (idle_scheduler 1 100 [gyro1 ()]))) ! 0 = gyro1 ()"
proof -
  let ?s = "run_ticks sample_time 9 (start (idle_scheduler 1 100 [gyro1 ()]))"
  let ?s1 = "start (idle_scheduler 1 100 [gyro1 ()]) :: (unit, int) Scheduler"
  let ?e = "\<lparr>eventTime = 10, eventDevice = ''Gyro1'', eventOutput = (10::int)\<rparr>"
  have m: "?e \<in> set (polled sample_time ?s)"
    unfolding gyro_after_9_ticks
    by (simp add: polled_def tick_def advance_def timed_out_def next_event_time_def
        stepSize_def deadline_def gyro1_def sample_time_def)
  from device_polled_only_when_due [of sample_time ?s] m
  have "\<exists>d \<in> set (devices ?s).
        deviceName d = eventDevice ?e \<and>
        eventTime ?e = currentTime (clock (tick sample_time ?s)) \<and>
        pollingInterval d \<le> currentTime (clock (tick sample_time ?s)) - lastPollTime d"
    by blast
  then have due: "\<exists>d \<in> set (devices ?s).
        deviceName d = ''Gyro1'' \<and> currentTime (clock (tick sample_time ?s)) = 10 \<and>
        pollingInterval d \<le> 10 - lastPollTime d"
    by auto
  have d1: "devices ?s1 = [gyro1 ()]"
    by (simp add: start_def idle_scheduler_def)
  have l: "0 < length (devices ?s1)" by (simp add: d1)
  have n: "currentTime (clock (tick sample_time ?s1)) - lastPollTime (devices ?s1 ! 0)
             < pollingInterval (devices ?s1 ! 0)"
    by (simp add: gyro_first_tick d1) (simp add: gyro1_def)
  from device_polled_only_when_due [of sample_time ?s1] l n
  have "devices (tick sample_time ?s1) ! 0 = devices ?s1 ! 0"
    by blast
  then have u: "devices (tick sample_time ?s1) ! 0 = gyro1 ()" by (simp add: d1)
  from m due l n u show ?thesis by blast
qed

section \<open>The scheduler: timeout\<close>

lemma timeout_transition:
  "phase s = Running \<Longrightarrow> timed_out s \<Longrightarrow> tick poll s = s\<lparr>phase := TimedOut\<rparr>"
  by (simp add: tick_def)

lemma Running_until_timeout:
  "phase s = Running \<Longrightarrow> \<not> timed_out s \<Longrightarrow> phase (tick poll s) = Running"
  by (simp add: tick_def advance_def Let_def split_beta)

lemma TimedOut_terminal_tick: "phase s = TimedOut \<Longrightarrow> tick poll s = s"
  by (simp add: tick_def)

lemma TimedOut_terminal:
  "phase s = TimedOut \<Longrightarrow> run_ticks poll n s = s \<and> start s = s \<and> stop s = s"
  by (induction n) (simp_all add: TimedOut_terminal_tick start_def stop_def)

lemma timeout_after_10_ticks:
  "run_ticks poll 10 (start (idle_scheduler 1 10 [gyro1 st])) =
     \<lparr>clock = \<lparr>currentTime = 10, mode = Fixed, stepMax = 0, stepMin = 0, timeout = 10\<rparr>,
      timeStep = 1, runStartTime = 0, phase = Running,
      devices = [\<lparr>deviceName = ''Gyro1'', pollingInterval = 10, lastPollTime = 10,
                  deviceState = fst (poll 10 st)\<rparr>],
      events = [\<lparr>eventTime = 10, eventDevice = ''Gyro1'', eventOutput = snd (poll 10 st)\<rparr>]\<rparr>"
  by (simp add: eval_nat_numeral idle_scheduler_def gyro1_def start_def tick_def advance_def
      timed_out_def next_event_time_def stepSize_def deadline_def split_beta)

lemma timeout_after_9_ticks:
  "run_ticks poll 9 (start (idle_scheduler 1 10 [gyro1 st])) =
     \<lparr>clock = \<lparr>currentTime = 9, mode = Fixed, stepMax = 0, stepMin = 0, timeout = 10\<rparr>,
      timeStep = 1, runStartTime = 0, phase = Running, devices = [gyro1 st], events = []\<rparr>"
  by (simp add: eval_nat_numeral idle_scheduler_def gyro1_def start_def tick_def advance_def
      timed_out_def next_event_time_def stepSize_def deadline_def split_beta)

lemma timeout_after_11_ticks:
  "run_ticks poll 11 (start (idle_scheduler 1 10 [gyro1 st])) =
     (run_ticks poll 10 (start (idle_scheduler 1 10 [gyro1 st])))\<lparr>phase := TimedOut\<rparr>"
proof -
  have "run_ticks poll (10 + 1) (start (idle_scheduler 1 10 [gyro1 st])) =
        tick poll (run_ticks poll 10 (start (idle_scheduler 1 10 [gyro1 st])))"
    unfolding run_ticks_add by simp
  also have "\<dots> = (run_ticks poll 10 (start (idle_scheduler 1 10 [gyro1 st])))\<lparr>phase := TimedOut\<rparr>"
    by (rule timeout_transition) (simp_all add: timeout_after_10_ticks timed_out_def)
  finally show ?thesis by simp
qed

text \<open>
  Claim C7. A tick of a running scheduler whose elapsed time has reached the timeout makes
  it TimedOut and changes nothing else: no time passes and no event is emitted. Until
  then a tick leaves it Running. A TimedOut scheduler is an ordinary state of the
  machine, and no tick, start or stop changes it, so its event stream stays as it is. With
  a timeout of 10 ms and ticks of 1 ms, the scheduler is still running and within the
  timeout after 9 ticks, the timeout has elapsed when the time is 10 ms, and the next tick
  makes the scheduler TimedOut at the time 10 ms; however many ticks follow, the events
  are those emitted up to that time.
\<close>

theorem timeout_is_terminal:
  "(phase s = Running \<and> timed_out s \<longrightarrow> tick poll s = s\<lparr>phase := TimedOut\<rparr>) \<and>
   (phase s = Running \<and> \<not> timed_out s \<longrightarrow> phase (tick poll s) = Running) \<and>
   (phase s = TimedOut \<longrightarrow> run_ticks poll n s = s \<and> start s = s \<and> stop s = s) \<and>
   (let s0 = start (idle_scheduler 1 10 [gyro1 st]) in
      phase (run_ticks poll 9 s0) = Running \<and>
      \<not> timed_out (run_ticks poll 9 s0) \<and>
      phase (run_ticks poll 10 s0) = Running \<and>
      currentTime (clock (run_ticks poll 10 s0)) = 10 \<and>
      timed_out (run_ticks poll 10 s0) \<and>
      phase (run_ticks poll 11 s0) = TimedOut \<and>
      currentTime (clock (run_ticks poll 11 s0)) = 10 \<and>
      events (run_ticks poll (11 + n) s0) = events (run_ticks poll 10 s0))"
proof (intro conjI impI)
  assume "phase s = Running \<and> timed_out s"
  then show "tick poll s = s\<lparr>phase := TimedOut\<rparr>" by (simp add: timeout_transition)
next
  assume "phase s = Running \<and> \<not> timed_out s"
  then show "phase (tick poll s) = Running" by (simp add: Running_until_timeout)
next
  assume "phase s = TimedOut"
  then show "run_ticks poll n s = s" by (simp add: TimedOut_terminal)
next
  assume "phase s = TimedOut"
  then show "start s = s" by (simp add: TimedOut_terminal)
next
  assume "phase s = TimedOut"
  then show "stop s = s" by (simp add: TimedOut_terminal)
next
  let ?s0 = "start (idle_scheduler 1 10 [gyro1 st])"
  have p11: "phase (run_ticks poll 11 ?s0) = TimedOut"
    by (simp add: timeout_after_11_ticks)
  have "run_ticks poll (11 + n) ?s0 = run_ticks poll n (run_ticks poll 11 ?s0)"
    by (rule run_ticks_add)
  also have "\<dots> = run_ticks poll 11 ?s0"
    using TimedOut_terminal [OF p11] by simp
  finally have later: "events (run_ticks poll (11 + n) ?s0) = events (run_ticks poll 10 ?s0)"
    by (simp add: timeout_after_11_ticks)
  have "phase (run_ticks poll 9 ?s0) = Running"
    and "\<not> timed_out (run_ticks poll 9 ?s0)"
    and "phase (run_ticks poll 10 ?s0) = Running"
    and "currentTime (clock (run_ticks poll 10 ?s0)) = 10"
    and "timed_out (run_ticks poll 10 ?s0)"
    and "currentTime (clock (run_ticks poll 11 ?s0)) = 10"
    by (simp_all add: timeout_after_9_ticks timeout_after_10_ticks timeout_after_11_ticks
        timed_out_def)
  with p11 later
  show "let s0 = ?s0 in
      phase (run_ticks poll 9 s0) = Running \<and>
      \<not> timed_out (run_ticks poll 9 s0) \<and>
      phase (run_ticks poll 10 s0) = Running \<and>
      currentTime (clock (run_ticks poll 10 s0)) = 10 \<and>
      timed_out (run_ticks poll 10 s0) \<and>
      phase (run_ticks poll 11 s0) = TimedOut \<and>
      currentTime (clock (run_ticks poll 11 s0)) = 10 \<and>
      events (run_ticks poll (11 + n) s0) = events (run_ticks poll 10 s0)"
    by (simp add: Let_def)
qed

theorem timeout_is_terminal_witness:
  "phase (run_ticks sample_time 10 (start (idle_scheduler 1 10 [gyro1 ()]))) = Running \<and>
   timed_out (run_ticks sample_time 10 (start (idle_scheduler 1 10 [gyro1 ()]))) \<and>
   tick sample_time (run_ticks sample_time 10 (start (idle_scheduler 1 10 [gyro1 ()]))) =
     (run_ticks sample_time 10 (start (idle_scheduler 1 10 [gyro1 ()])))\<lparr>phase := TimedOut\<rparr> \<and>
   phase (run_ticks sample_time 9 (start (idle_scheduler 1 10 [gyro1 ()]))) = Running \<and>
   \<not> timed_out (run_ticks sample_time 9 (start (idle_scheduler 1 10 [gyro1 ()]))) \<and>
   phase (tick sample_time (run_ticks sample_time 9 (start (idle_scheduler 1 10 [gyro1 ()]))))
     = Running \<and>
   phase (run_ticks sample_time 11 (start (idle_scheduler 1 10 [gyro1 ()]))) = TimedOut \<and>
   run_ticks sample_time 5 (run_ticks sample_time 11 (start (idle_scheduler 1 10 [gyro1 ()]))) =
     run_ticks sample_time 11 (start (idle_scheduler 1 10 [gyro1 ()]))"
proof -
  let ?s0 = "start (idle_scheduler 1 10 [gyro1 ()]) :: (unit, int) Scheduler"
  have r10: "phase (run_ticks sample_time 10 ?s0) = Running"
    and t10: "timed_out (run_ticks sample_time 10 ?s0)"
    by (simp_all add: timeout_after_10_ticks timed_out_def)
  have r9: "phase (run_ticks sample_time 9 ?s0) = Running"
    and t9: "\<not> timed_out (run_ticks sample_time 9 ?s0)"
    by (simp_all add: timeout_after_9_ticks timed_out_def)
  have p11: "phase (run_ticks sample_time 11 ?s0) = TimedOut"
    by (simp add: timeout_after_11_ticks)
  from timeout_is_terminal [of "run_ticks sample_time 10 ?s0" sample_time] r10 t10
  have a: "tick sample_time (run_ticks sample_time 10 ?s0) =
      (run_ticks sample_time 10 ?s0)\<lparr>phase := TimedOut\<rparr>"
    by blast
  from timeout_is_terminal [of "run_ticks sample_time 9 ?s0" sample_time] r9 t9
  have b: "phase (tick sample_time (run_ticks sample_time 9 ?s0)) = Running"
    by blast
  from timeout_is_terminal [of "run_ticks sample_time 11 ?s0" sample_time 5] p11
  have c: "run_ticks sample_time 5 (run_ticks sample_time 11 ?s0) =
      run_ticks sample_time 11 ?s0"
    by blast
  from r10 t10 a r9 t9 b p11 c show ?thesis by blast
qed

end
